theory Spec2Isabelle
  imports Complex_Main "HOL-Library.List_Lexorder" "HOL-Library.Char_ord"
begin

section \<open>Python values\<close>

text \<open>
  The values that travel through the client and the access gate are JSON-compatible
  Python values: \<open>None\<close>, booleans, integers, (finite) floats, strings, lists and
  dictionaries with string keys. A dictionary is an association list in insertion
  order; a well-formed one has distinct keys, and \<open>map_of\<close> is \<open>dict.get\<close>.
\<close>

datatype pyval =
    PNone
  | PBool bool
  | PInt int
  | PFloat real
  | PStr string
  | PList "pyval list"
  | PDict "(string \<times> pyval) list"

type_synonym py_dict = "(string \<times> pyval) list"

text \<open>Python's truth value of an object, as \<open>not v\<close> and \<open>if v\<close> use it.\<close>

fun truthy :: "pyval \<Rightarrow> bool" where
  "truthy PNone = False"
| "truthy (PBool b) = b"
| "truthy (PInt i) = (i \<noteq> 0)"
| "truthy (PFloat x) = (x \<noteq> 0)"
| "truthy (PStr s) = (s \<noteq> [])"
| "truthy (PList xs) = (xs \<noteq> [])"
| "truthy (PDict d) = (d \<noteq> [])"

text \<open>\<open>d.get(k, dflt)\<close>.\<close>

definition get_default :: "('k \<times> 'v) list \<Rightarrow> 'k \<Rightarrow> 'v \<Rightarrow> 'v" where
  "get_default d k dflt = (case map_of d k of None \<Rightarrow> dflt | Some v \<Rightarrow> v)"

text \<open>\<open>sep.join(xs)\<close>.\<close>

fun join :: "string \<Rightarrow> string list \<Rightarrow> string" where
  "join sep [] = []"
| "join sep [x] = x"
| "join sep (x # y # ys) = x @ sep @ join sep (y # ys)"

text \<open>The apostrophe that the error messages put around names.\<close>

definition apostrophe :: string where
  "apostrophe = [CHR 0x27]"

section \<open>Exceptions\<close>

text \<open>
  Every exception that the modelled code raises or lets through is a value.
  \<open>RateLimitError\<close>, \<open>PlanLimitError\<close> and \<open>APIError\<close> are the three classes of
  \<open>client.py\<close>; \<open>ValueError\<close> is raised by the gate; \<open>TimeoutException\<close>,
  \<open>ConnectError\<close> and \<open>HTTPStatusError\<close> (with the status code of its response) come
  from the HTTP library; \<open>RetryError\<close> is the retry library's wrapper around the
  exception of the last attempt.
\<close>

datatype error =
    RateLimitError string
  | PlanLimitError string
  | APIError string
  | ValueError string
  | HTTPStatusError int
  | TimeoutException
  | ConnectError
  | JSONDecodeError
  | AttributeError
  | OtherException string
  | RetryError error

section \<open>config.py\<close>

definition BASE_URL :: string where
  "BASE_URL = ''https://open-api-v4.coinglass.com''"

definition TIMEOUT :: real where
  "TIMEOUT = 30"

definition PLAN_HIERARCHY :: "(string \<times> int) list" where
  "PLAN_HIERARCHY =
    [(''hobbyist'', 0),
     (''startup'', 1),
     (''standard'', 2),
     (''professional'', 3),
     (''enterprise'', 4)]"

definition PLAN_INTERVALS :: "(string \<times> string set) list" where
  "PLAN_INTERVALS =
    [(''hobbyist'', {''h4'', ''h8'', ''h12'', ''d1'', ''w1''}),
     (''startup'', {''m30'', ''h1'', ''h4'', ''h8'', ''h12'', ''d1'', ''w1''}),
     (''standard'', {''m1'', ''m5'', ''m15'', ''m30'', ''h1'', ''h4'', ''h8'', ''h12'', ''d1'', ''w1''}),
     (''professional'', {''m1'', ''m5'', ''m15'', ''m30'', ''h1'', ''h4'', ''h8'', ''h12'', ''d1'', ''w1''}),
     (''enterprise'', {''m1'', ''m5'', ''m15'', ''m30'', ''h1'', ''h4'', ''h8'', ''h12'', ''d1'', ''w1''})]"

definition ACTION_PLAN :: "(string \<times> string) list" where
  "ACTION_PLAN =
    [(''orders'', ''standard''),
     (''pair_heatmap'', ''professional''),
     (''coin_heatmap'', ''professional''),
     (''pair_map'', ''professional''),
     (''coin_map'', ''professional''),
     (''alerts'', ''startup''),
     (''positions'', ''startup''),
     (''all_positions'', ''startup'')]"

definition ACTION_PARAMS :: "(string \<times> string list) list" where
  "ACTION_PARAMS =
    [(''pair'', [''exchange'', ''pair'']),
     (''aggregated'', [''symbol'']),
     (''stablecoin'', [''symbol'']),
     (''coin_margin'', [''symbol'']),
     (''by_exchange'', [''symbol'']),
     (''exchange_chart'', [''symbol'']),
     (''oi_weighted'', [''symbol'']),
     (''vol_weighted'', [''symbol'']),
     (''global'', [''exchange'', ''pair'']),
     (''top_accounts'', [''exchange'', ''pair'']),
     (''top_positions'', [''exchange'', ''pair'']),
     (''price_history'', [''exchange'', ''pair'', ''interval''])]"

section \<open>server.py: the access gate and the success envelope\<close>

text \<open>
  The context of a tool call carries the lifespan dictionary, of which the gate reads
  the plan. A tool called outside the protocol has no context (\<open>ctx is None\<close>).
\<close>

record Context =
  lifespan_plan :: string

definition get_plan :: "Context option \<Rightarrow> error + string" where
  "get_plan ctx =
    (case ctx of
       None \<Rightarrow> Inl (ValueError ''Context is required - tool must be called via MCP'')
     | Some c \<Rightarrow> Inr (lifespan_plan c))"

definition check_plan :: "Context option \<Rightarrow> string \<Rightarrow> error + unit" where
  "check_plan ctx action =
    (case get_plan ctx of
       Inl e \<Rightarrow> Inl e
     | Inr plan \<Rightarrow>
        (case map_of ACTION_PLAN action of
           None \<Rightarrow> Inr ()
         | Some required \<Rightarrow>
            if required \<noteq> [] \<and>
               get_default PLAN_HIERARCHY plan 0 < get_default PLAN_HIERARCHY required 0
            then Inl (ValueError
              (''Action '' @ apostrophe @ action @ apostrophe @ '' requires '' @ required
               @ '' plan (current: '' @ plan @ ''). ''
               @ ''Upgrade at https://www.coinglass.com/pricing''))
            else Inr ()))"

definition check_interval :: "Context option \<Rightarrow> string \<Rightarrow> error + unit" where
  "check_interval ctx interval =
    (case get_plan ctx of
       Inl e \<Rightarrow> Inl e
     | Inr plan \<Rightarrow>
        (let allowed = get_default PLAN_INTERVALS plan {} in
         if interval \<notin> allowed
         then Inl (ValueError
           (''Interval '' @ apostrophe @ interval @ apostrophe @ '' not available for ''
            @ plan @ '' plan. ''
            @ ''Available intervals: '' @ join '', '' (sorted_list_of_set allowed)))
         else Inr ()))"

definition check_params :: "string \<Rightarrow> py_dict \<Rightarrow> error + unit" where
  "check_params action kwargs =
    (let required = get_default ACTION_PARAMS action [];
         missing = filter (\<lambda>p. \<not> truthy (get_default kwargs p PNone)) required
     in if missing \<noteq> []
        then Inl (ValueError
          (''Action '' @ apostrophe @ action @ apostrophe @ '' requires parameters: ''
           @ join '', '' missing))
        else Inr ())"

definition ok :: "string \<Rightarrow> pyval \<Rightarrow> py_dict \<Rightarrow> pyval" where
  "ok action data meta =
    PDict
      [(''success'', PBool True),
       (''action'', PStr action),
       (''data'', data),
       (''metadata'', PDict (filter (\<lambda>(k, v). v \<noteq> PNone) meta))]"

section \<open>client.py: the transport client\<close>

text \<open>
  A response of the upstream service, as far as the client reads it: the status code
  and what \<open>response.json()\<close> parses (\<open>None\<close> when the body is not JSON).
\<close>

record response =
  status_code :: int
  json_body :: "pyval option"

text \<open>The arguments of one \<open>http.get\<close> call.\<close>

record http_call =
  call_url :: string
  call_params :: "py_dict option"
  call_headers :: "(string \<times> string) list"
  call_timeout :: real

text \<open>
  What a call of \<open>request\<close> does to the outside: GET calls, and the sleeps of the
  retry decorator between attempts.
\<close>

datatype event = HttpGet http_call | Sleep real

text \<open>
  The HTTP connection is the environment: the answer to the GET of attempt \<open>n\<close> is
  either an exception of the HTTP library or a response.
\<close>

type_synonym transport = "nat \<Rightarrow> http_call \<Rightarrow> error + response"

record CoinGlassClient =
  http :: transport
  api_key :: string
  base_url :: string

definition is_retryable :: "error \<Rightarrow> bool" where
  "is_retryable exc =
    (case exc of
       TimeoutException \<Rightarrow> True
     | ConnectError \<Rightarrow> True
     | HTTPStatusError code \<Rightarrow> 500 \<le> code \<and> code < 600
     | _ \<Rightarrow> False)"

text \<open>
  Modelled from the spec: \<open>Response.raise_for_status\<close> of the HTTP library, which is
  not in the repository. The status-code policy of the spec makes every response
  outside 2xx a generic HTTP failure; it is the library's \<open>HTTPStatusError\<close>, which
  carries the response.
\<close>

definition raise_for_status :: "response \<Rightarrow> error + unit" where
  "raise_for_status r =
    (if 200 \<le> status_code r \<and> status_code r < 300 then Inr ()
     else Inl (HTTPStatusError (status_code r)))"

text \<open>
  What an f-string puts in place of \<open>{v}\<close>: a string as it is, anything else through
  Python's \<open>str\<close>, which the repository does not define and which is the parameter
  \<open>py_str\<close> of the client functions.
\<close>

definition format_value :: "(pyval \<Rightarrow> string) \<Rightarrow> pyval \<Rightarrow> string" where
  "format_value py_str v = (case v of PStr s \<Rightarrow> s | _ \<Rightarrow> py_str v)"

text \<open>\<open>{k: v for k, v in (params or {}).items() if v is not None}\<close>\<close>

definition filtered_params :: "py_dict option \<Rightarrow> py_dict" where
  "filtered_params params =
    filter (\<lambda>(k, v). v \<noteq> PNone) (case params of None \<Rightarrow> [] | Some d \<Rightarrow> d)"

text \<open>The GET call that \<open>request\<close> issues.\<close>

definition get_call :: "CoinGlassClient \<Rightarrow> string \<Rightarrow> py_dict option \<Rightarrow> http_call" where
  "get_call self endpoint params =
    (let fp = filtered_params params in
     \<lparr>call_url = base_url self @ endpoint,
      call_params = (if fp \<noteq> [] then Some fp else None),
      call_headers = [(''CG-API-KEY'', api_key self)],
      call_timeout = TIMEOUT\<rparr>)"

text \<open>What the body of \<open>request\<close> makes of the response it awaited.\<close>

definition handle_response :: "(pyval \<Rightarrow> string) \<Rightarrow> response \<Rightarrow> error + pyval" where
  "handle_response py_str r =
    (if status_code r = 429 then
       Inl (RateLimitError ''Rate limit exceeded. Please wait before making more requests.'')
     else if status_code r = 403 then
       Inl (PlanLimitError
         ''This feature requires a higher plan. Check your CoinGlass subscription.'')
     else if status_code r = 401 then
       Inl (APIError ''Invalid API key. Please check your COINGLASS_API_KEY.'')
     else
       (case raise_for_status r of
          Inl e \<Rightarrow> Inl e
        | Inr _ \<Rightarrow>
           (case json_body r of
              None \<Rightarrow> Inl JSONDecodeError
            | Some (PDict data) \<Rightarrow>
               if map_of data ''code'' \<noteq> Some (PStr ''0'')
               then Inl (APIError
                 (''API error: ''
                  @ format_value py_str (get_default data ''msg'' (PStr ''Unknown error''))))
               else Inr (get_default data ''data'' PNone)
            | Some _ \<Rightarrow> Inl AttributeError)))"

text \<open>
  One run of the body of \<open>request\<close>, the attempt numbered \<open>attempt_number\<close>: the
  result or the exception, and the GET call made.
\<close>

definition request_attempt ::
  "(pyval \<Rightarrow> string) \<Rightarrow> CoinGlassClient \<Rightarrow> string \<Rightarrow> py_dict option \<Rightarrow> nat
   \<Rightarrow> (error + pyval) \<times> event list" where
  "request_attempt py_str self endpoint params attempt_number =
    (let call = get_call self endpoint params in
     (case http self attempt_number call of
        Inl e \<Rightarrow> Inl e
      | Inr r \<Rightarrow> handle_response py_str r,
      [HttpGet call]))"

subsection \<open>The retry decorator\<close>

text \<open>
  \<open>request\<close> is decorated with tenacity's \<open>retry\<close>, given
  \<open>stop_after_attempt(3)\<close>, \<open>wait_exponential(multiplier=1, min=1, max=10)\<close> and
  \<open>retry_if_exception(_is_retryable)\<close>. The decorator runs the body; a result, or an
  exception that the predicate does not accept, leaves as it is. After an accepted
  exception the stop condition is asked: when it holds, the library raises the last
  exception itself when the option \<open>reraise\<close> is set and its own \<open>RetryError\<close>
  around the last outcome when it is not; otherwise it sleeps and runs the body again
  with the next attempt number. The decoration of \<open>request\<close> gives neither
  \<open>reraise\<close>, whose default is \<open>False\<close>, nor \<open>retry_error_callback\<close>.
\<close>

definition stop_after_attempt :: "nat \<Rightarrow> nat \<Rightarrow> bool" where
  "stop_after_attempt max_attempt_number attempt_number =
    (attempt_number \<ge> max_attempt_number)"

text \<open>The wait after the attempt numbered \<open>attempt_number\<close>; attempts are numbered
  from 1.\<close>

definition wait_exponential :: "real \<Rightarrow> real \<Rightarrow> real \<Rightarrow> nat \<Rightarrow> real" where
  "wait_exponential multiplier mn mx attempt_number =
    max (max 0 mn) (min (multiplier * 2 ^ (attempt_number - 1)) mx)"

function retry_call ::
  "nat \<Rightarrow> (nat \<Rightarrow> real) \<Rightarrow> (error \<Rightarrow> bool) \<Rightarrow> bool
   \<Rightarrow> (nat \<Rightarrow> (error + 'a) \<times> event list) \<Rightarrow> nat
   \<Rightarrow> (error + 'a) \<times> event list" where
  "retry_call max_attempt wait retry reraise fn attempt_number =
    (case fn attempt_number of
       (Inr v, tr) \<Rightarrow> (Inr v, tr)
     | (Inl e, tr) \<Rightarrow>
        if \<not> retry e then (Inl e, tr)
        else if stop_after_attempt max_attempt attempt_number
          then (Inl (if reraise then e else RetryError e), tr)
        else (case retry_call max_attempt wait retry reraise fn (attempt_number + 1) of
                (res, tr') \<Rightarrow> (res, tr @ Sleep (wait attempt_number) # tr')))"
  by pat_completeness auto
termination
  by (relation "measure (\<lambda>(m, w, r, rr, f, n). m - n)")
     (auto simp: stop_after_attempt_def)

declare retry_call.simps [simp del]

definition request ::
  "(pyval \<Rightarrow> string) \<Rightarrow> CoinGlassClient \<Rightarrow> string \<Rightarrow> py_dict option
   \<Rightarrow> (error + pyval) \<times> event list" where
  "request py_str self endpoint params =
    retry_call 3 (wait_exponential 1 1 10) is_retryable False
      (request_attempt py_str self endpoint params) 1"

text \<open>The number of GET calls in a trace.\<close>

definition attempts :: "event list \<Rightarrow> nat" where
  "attempts tr = length (filter (\<lambda>ev. case ev of HttpGet c \<Rightarrow> True | Sleep d \<Rightarrow> False) tr)"

text \<open>The class of an exception, by its name: what \<open>pytest.raises\<close> and a caller's
  \<open>except\<close> clause tell apart.\<close>

fun exception_class :: "error \<Rightarrow> string" where
  "exception_class (RateLimitError m) = ''RateLimitError''"
| "exception_class (PlanLimitError m) = ''PlanLimitError''"
| "exception_class (APIError m) = ''APIError''"
| "exception_class (ValueError m) = ''ValueError''"
| "exception_class (HTTPStatusError code) = ''HTTPStatusError''"
| "exception_class TimeoutException = ''TimeoutException''"
| "exception_class ConnectError = ''ConnectError''"
| "exception_class JSONDecodeError = ''JSONDecodeError''"
| "exception_class AttributeError = ''AttributeError''"
| "exception_class (OtherException name) = name"
| "exception_class (RetryError e) = ''RetryError''"

subsection \<open>The fixtures of tests/conftest.py\<close>

text \<open>
  The client of the tests: a connection that answers every GET alike, and the key
  \<open>test-api-key\<close>. \<open>mock_response\<close> is a response with status 200 and the envelope
  of the given data, code and message.
\<close>

definition mock_client :: "error + response \<Rightarrow> CoinGlassClient" where
  "mock_client outcome =
    \<lparr>http = (\<lambda>n call. outcome), api_key = ''test-api-key'', base_url = BASE_URL\<rparr>"

definition mock_response :: "pyval \<Rightarrow> string \<Rightarrow> string \<Rightarrow> response" where
  "mock_response data code msg =
    \<lparr>status_code = 200,
     json_body = Some (PDict [(''code'', PStr code), (''msg'', PStr msg), (''data'', data)])\<rparr>"

text \<open>
  In the closed examples every formatted value is a string, so that \<open>str\<close> is never
  applied; this function stands in its place there.
\<close>

definition unused_str :: "pyval \<Rightarrow> string" where
  "unused_str v = []"

section \<open>The access gate\<close>

subsection \<open>Intervals\<close>

lemma check_interval_passes:
  "(check_interval (Some ctx) interval = Inr ())
     = (interval \<in> get_default PLAN_INTERVALS (lifespan_plan ctx) {})"
  by (simp add: check_interval_def get_plan_def Let_def)

lemma check_interval_fails:
  "isl (check_interval (Some ctx) interval)
     = (interval \<notin> get_default PLAN_INTERVALS (lifespan_plan ctx) {})"
  by (simp add: check_interval_def get_plan_def Let_def)

lemma get_default_member:
  "(x \<in> get_default d k {}) = (\<exists>s. map_of d k = Some s \<and> x \<in> s)"
  by (simp add: get_default_def split: option.splits)

text \<open>
  C5. For every caller tier and interval, \<open>check_interval\<close> passes exactly when the
  interval is in the set that \<open>PLAN_INTERVALS\<close> registers for the tier, and fails
  otherwise; a tier that the table does not hold has the empty set and fails for every
  interval. Tier hobbyist rejects m5 and accepts h4, tier standard accepts both.
\<close>

theorem check_interval_iff_member:
  "((check_interval (Some ctx) interval = Inr ())
      = (\<exists>s. map_of PLAN_INTERVALS (lifespan_plan ctx) = Some s \<and> interval \<in> s))
   \<and> (isl (check_interval (Some ctx) interval)
      = (\<not> (\<exists>s. map_of PLAN_INTERVALS (lifespan_plan ctx) = Some s \<and> interval \<in> s)))
   \<and> (map_of PLAN_INTERVALS (lifespan_plan ctx) = None
        \<longrightarrow> isl (check_interval (Some ctx) interval))
   \<and> isl (check_interval (Some \<lparr>lifespan_plan = ''hobbyist''\<rparr>) ''m5'')
   \<and> check_interval (Some \<lparr>lifespan_plan = ''hobbyist''\<rparr>) ''h4'' = Inr ()
   \<and> check_interval (Some \<lparr>lifespan_plan = ''standard''\<rparr>) ''m5'' = Inr ()
   \<and> check_interval (Some \<lparr>lifespan_plan = ''standard''\<rparr>) ''h4'' = Inr ()"
proof (intro conjI)
  show "(check_interval (Some ctx) interval = Inr ())
      = (\<exists>s. map_of PLAN_INTERVALS (lifespan_plan ctx) = Some s \<and> interval \<in> s)"
    by (simp only: check_interval_passes get_default_member)
  show "isl (check_interval (Some ctx) interval)
      = (\<not> (\<exists>s. map_of PLAN_INTERVALS (lifespan_plan ctx) = Some s \<and> interval \<in> s))"
    by (simp only: check_interval_fails get_default_member)
  show "map_of PLAN_INTERVALS (lifespan_plan ctx) = None
        \<longrightarrow> isl (check_interval (Some ctx) interval)"
    by (simp add: check_interval_fails get_default_def)
  show "isl (check_interval (Some \<lparr>lifespan_plan = ''hobbyist''\<rparr>) ''m5'')"
    by (simp add: check_interval_fails get_default_def PLAN_INTERVALS_def)
  show "check_interval (Some \<lparr>lifespan_plan = ''hobbyist''\<rparr>) ''h4'' = Inr ()"
    by (simp add: check_interval_passes get_default_def PLAN_INTERVALS_def)
  show "check_interval (Some \<lparr>lifespan_plan = ''standard''\<rparr>) ''m5'' = Inr ()"
    by (simp add: check_interval_passes get_default_def PLAN_INTERVALS_def)
  show "check_interval (Some \<lparr>lifespan_plan = ''standard''\<rparr>) ''h4'' = Inr ()"
    by (simp add: check_interval_passes get_default_def PLAN_INTERVALS_def)
qed

theorem check_interval_iff_member_witness:
  "map_of PLAN_INTERVALS (lifespan_plan \<lparr>lifespan_plan = ''free''\<rparr>) = None
   \<and> isl (check_interval (Some \<lparr>lifespan_plan = ''free''\<rparr>) ''h4'')
   \<and> map_of PLAN_INTERVALS (lifespan_plan \<lparr>lifespan_plan = ''startup''\<rparr>)
       = Some {''m30'', ''h1'', ''h4'', ''h8'', ''h12'', ''d1'', ''w1''}
   \<and> check_interval (Some \<lparr>lifespan_plan = ''startup''\<rparr>) ''m30'' = Inr ()"
  using check_interval_iff_member [of "\<lparr>lifespan_plan = ''free''\<rparr>" "''h4''"]
        check_interval_iff_member [of "\<lparr>lifespan_plan = ''startup''\<rparr>" "''m30''"]
  by (simp add: PLAN_INTERVALS_def)

subsection \<open>Plans\<close>

text \<open>Every registered minimum plan is a non-empty name of the hierarchy.\<close>

lemma ACTION_PLAN_registered:
  "map_of ACTION_PLAN action = Some required \<Longrightarrow>
     required \<noteq> [] \<and> map_of PLAN_HIERARCHY required \<noteq> None"
  by (simp add: ACTION_PLAN_def PLAN_HIERARCHY_def split: if_splits)

lemma check_plan_registered:
  "map_of ACTION_PLAN action = Some required \<Longrightarrow>
     (check_plan (Some ctx) action = Inr ())
       = (get_default PLAN_HIERARCHY required 0 \<le> get_default PLAN_HIERARCHY (lifespan_plan ctx) 0)"
  using ACTION_PLAN_registered [of action required]
  by (simp add: check_plan_def get_plan_def not_less)

lemma check_plan_registered_fails:
  "map_of ACTION_PLAN action = Some required \<Longrightarrow>
     isl (check_plan (Some ctx) action)
       = (get_default PLAN_HIERARCHY (lifespan_plan ctx) 0 < get_default PLAN_HIERARCHY required 0)"
  using ACTION_PLAN_registered [of action required]
  by (simp add: check_plan_def get_plan_def)

lemma check_plan_unregistered:
  "map_of ACTION_PLAN action = None \<Longrightarrow> check_plan (Some ctx) action = Inr ()"
  by (simp add: check_plan_def get_plan_def)

text \<open>
  C6. For an action with a registered minimum plan, \<open>check_plan\<close> passes exactly
  when the rank of the caller's tier is at least the rank of the registered minimum
  (which is a plan of the hierarchy), and fails when it is lower; for an action with no
  registered minimum it passes for every tier. The action orders requires standard: it
  rejects hobbyist and accepts professional.
\<close>

theorem check_plan_iff_rank:
  "(map_of ACTION_PLAN action = Some required \<longrightarrow>
      map_of PLAN_HIERARCHY required \<noteq> None
      \<and> (check_plan (Some ctx) action = Inr ())
          = (get_default PLAN_HIERARCHY (lifespan_plan ctx) 0
               \<ge> get_default PLAN_HIERARCHY required 0)
      \<and> isl (check_plan (Some ctx) action)
          = (get_default PLAN_HIERARCHY (lifespan_plan ctx) 0
               < get_default PLAN_HIERARCHY required 0))
   \<and> (map_of ACTION_PLAN action = None \<longrightarrow> check_plan (Some ctx) action = Inr ())
   \<and> map_of ACTION_PLAN ''orders'' = Some ''standard''
   \<and> isl (check_plan (Some \<lparr>lifespan_plan = ''hobbyist''\<rparr>) ''orders'')
   \<and> check_plan (Some \<lparr>lifespan_plan = ''professional''\<rparr>) ''orders'' = Inr ()"
proof (intro conjI impI)
  assume r: "map_of ACTION_PLAN action = Some required"
  show "map_of PLAN_HIERARCHY required \<noteq> None"
    using ACTION_PLAN_registered [OF r] by simp
  show "(check_plan (Some ctx) action = Inr ())
          = (get_default PLAN_HIERARCHY (lifespan_plan ctx) 0
               \<ge> get_default PLAN_HIERARCHY required 0)"
    by (rule check_plan_registered [OF r])
  show "isl (check_plan (Some ctx) action)
          = (get_default PLAN_HIERARCHY (lifespan_plan ctx) 0
               < get_default PLAN_HIERARCHY required 0)"
    by (rule check_plan_registered_fails [OF r])
next
  assume "map_of ACTION_PLAN action = None"
  then show "check_plan (Some ctx) action = Inr ()"
    by (rule check_plan_unregistered)
next
  show o: "map_of ACTION_PLAN ''orders'' = Some ''standard''"
    by (simp add: ACTION_PLAN_def)
  show "isl (check_plan (Some \<lparr>lifespan_plan = ''hobbyist''\<rparr>) ''orders'')"
    by (simp add: check_plan_registered_fails [OF o] get_default_def PLAN_HIERARCHY_def)
  show "check_plan (Some \<lparr>lifespan_plan = ''professional''\<rparr>) ''orders'' = Inr ()"
    by (simp add: check_plan_registered [OF o] get_default_def PLAN_HIERARCHY_def)
qed

theorem check_plan_iff_rank_witness:
  "map_of ACTION_PLAN ''alerts'' = Some ''startup''
   \<and> map_of PLAN_HIERARCHY ''startup'' \<noteq> None
   \<and> check_plan (Some \<lparr>lifespan_plan = ''startup''\<rparr>) ''alerts'' = Inr ()
   \<and> isl (check_plan (Some \<lparr>lifespan_plan = ''hobbyist''\<rparr>) ''alerts'')
   \<and> map_of ACTION_PLAN ''coins'' = None
   \<and> check_plan (Some \<lparr>lifespan_plan = ''hobbyist''\<rparr>) ''coins'' = Inr ()"
  using check_plan_iff_rank [of "''alerts''" "''startup''" "\<lparr>lifespan_plan = ''startup''\<rparr>"]
        check_plan_iff_rank [of "''alerts''" "''startup''" "\<lparr>lifespan_plan = ''hobbyist''\<rparr>"]
        check_plan_iff_rank [of "''coins''" "''startup''" "\<lparr>lifespan_plan = ''hobbyist''\<rparr>"]
  by (simp add: ACTION_PLAN_def PLAN_HIERARCHY_def get_default_def)

text \<open>Rank 0 is the rank of hobbyist, and no plan of the hierarchy has a lower one.\<close>

lemma PLAN_HIERARCHY_lowest:
  "get_default PLAN_HIERARCHY ''hobbyist'' 0 = 0
   \<and> (map_of PLAN_HIERARCHY p = Some r \<longrightarrow> 0 \<le> r)"
  by (auto simp: PLAN_HIERARCHY_def get_default_def split: if_splits)

text \<open>
  C9. A caller plan that is not in the plan hierarchy gets rank 0, the rank of hobbyist,
  and is not rejected outright: \<open>check_plan\<close> denies it every action whose registered
  minimum has a rank above 0, allows it every action with no registered minimum (and
  every action whose minimum has rank 0), so that it fails exactly where hobbyist fails.
\<close>

theorem check_plan_unknown_plan:
  "map_of PLAN_HIERARCHY (lifespan_plan ctx) = None \<Longrightarrow>
     get_default PLAN_HIERARCHY (lifespan_plan ctx) 0 = 0
     \<and> get_default PLAN_HIERARCHY ''hobbyist'' 0 = 0
     \<and> (map_of ACTION_PLAN action = Some required
          \<longrightarrow> 0 < get_default PLAN_HIERARCHY required 0
          \<longrightarrow> isl (check_plan (Some ctx) action))
     \<and> (map_of ACTION_PLAN action = Some required
          \<longrightarrow> get_default PLAN_HIERARCHY required 0 \<le> 0
          \<longrightarrow> check_plan (Some ctx) action = Inr ())
     \<and> (map_of ACTION_PLAN action = None \<longrightarrow> check_plan (Some ctx) action = Inr ())
     \<and> isl (check_plan (Some ctx) action)
         = isl (check_plan (Some \<lparr>lifespan_plan = ''hobbyist''\<rparr>) action)"
proof -
  assume u: "map_of PLAN_HIERARCHY (lifespan_plan ctx) = None"
  have r0: "get_default PLAN_HIERARCHY (lifespan_plan ctx) 0 = 0"
    using u by (simp add: get_default_def)
  have h0: "get_default PLAN_HIERARCHY ''hobbyist'' 0 = 0"
    using PLAN_HIERARCHY_lowest by simp
  have same: "isl (check_plan (Some ctx) action)
         = isl (check_plan (Some \<lparr>lifespan_plan = ''hobbyist''\<rparr>) action)"
  proof (cases "map_of ACTION_PLAN action")
    case None
    then show ?thesis by (simp add: check_plan_unregistered)
  next
    case (Some req)
    then show ?thesis by (simp add: check_plan_registered_fails r0 h0)
  qed
  show ?thesis
    using r0 h0 same
    by (simp add: check_plan_registered_fails check_plan_registered check_plan_unregistered)
qed

theorem check_plan_unknown_plan_witness:
  "map_of PLAN_HIERARCHY (lifespan_plan \<lparr>lifespan_plan = ''free''\<rparr>) = None
   \<and> map_of ACTION_PLAN ''orders'' = Some ''standard''
   \<and> 0 < get_default PLAN_HIERARCHY ''standard'' 0
   \<and> isl (check_plan (Some \<lparr>lifespan_plan = ''free''\<rparr>) ''orders'')
   \<and> map_of ACTION_PLAN ''coins'' = None
   \<and> check_plan (Some \<lparr>lifespan_plan = ''free''\<rparr>) ''coins'' = Inr ()"
  using check_plan_unknown_plan [of "\<lparr>lifespan_plan = ''free''\<rparr>" "''orders''" "''standard''"]
        check_plan_unknown_plan [of "\<lparr>lifespan_plan = ''free''\<rparr>" "''coins''" "''standard''"]
  by (simp add: PLAN_HIERARCHY_def ACTION_PLAN_def get_default_def)

subsection \<open>Intervals along the plan order\<close>

lemma PLAN_HIERARCHY_names:
  "map_of PLAN_HIERARCHY p = Some r \<Longrightarrow>
     (p = ''hobbyist'' \<and> r = 0) \<or> (p = ''startup'' \<and> r = 1) \<or> (p = ''standard'' \<and> r = 2)
     \<or> (p = ''professional'' \<and> r = 3) \<or> (p = ''enterprise'' \<and> r = 4)"
  by (simp add: PLAN_HIERARCHY_def split: if_splits)

lemma intervals_hobbyist:
  "get_default PLAN_INTERVALS ''hobbyist'' {} = {''h4'', ''h8'', ''h12'', ''d1'', ''w1''}"
  by (simp add: PLAN_INTERVALS_def get_default_def)
lemma intervals_startup:
  "get_default PLAN_INTERVALS ''startup'' {} = {''m30'', ''h1'', ''h4'', ''h8'', ''h12'', ''d1'', ''w1''}"
  by (simp add: PLAN_INTERVALS_def get_default_def)
lemma intervals_standard:
  "get_default PLAN_INTERVALS ''standard'' {} = {''m1'', ''m5'', ''m15'', ''m30'', ''h1'', ''h4'', ''h8'', ''h12'', ''d1'', ''w1''}"
  by (simp add: PLAN_INTERVALS_def get_default_def)
lemma intervals_professional:
  "get_default PLAN_INTERVALS ''professional'' {} = {''m1'', ''m5'', ''m15'', ''m30'', ''h1'', ''h4'', ''h8'', ''h12'', ''d1'', ''w1''}"
  by (simp add: PLAN_INTERVALS_def get_default_def)
lemma intervals_enterprise:
  "get_default PLAN_INTERVALS ''enterprise'' {} = {''m1'', ''m5'', ''m15'', ''m30'', ''h1'', ''h4'', ''h8'', ''h12'', ''d1'', ''w1''}"
  by (simp add: PLAN_INTERVALS_def get_default_def)

lemmas intervals_of_plan =
  intervals_hobbyist intervals_startup intervals_standard intervals_professional
  intervals_enterprise

lemma PLAN_INTERVALS_mono:
  assumes "map_of PLAN_HIERARCHY p = Some rp" "map_of PLAN_HIERARCHY q = Some rq" "rp \<le> rq"
  shows "get_default PLAN_INTERVALS p {} \<subseteq> get_default PLAN_INTERVALS q {}"
  using PLAN_HIERARCHY_names [OF assms(1)] PLAN_HIERARCHY_names [OF assms(2)] assms(3)
  by (elim disjE conjE) (simp_all add: intervals_of_plan)

text \<open>
  C10. The registered interval sets grow with the plan order: for plans \<open>p\<close> and
  \<open>q\<close> of the hierarchy with the rank of \<open>p\<close> at most the rank of \<open>q\<close>, the
  interval set of \<open>p\<close> is a subset of the interval set of \<open>q\<close>, so that an
  interval for which \<open>check_interval\<close> passes under \<open>p\<close> passes under \<open>q\<close>.
\<close>

theorem plan_intervals_monotone:
  "map_of PLAN_HIERARCHY p = Some rp \<Longrightarrow> map_of PLAN_HIERARCHY q = Some rq \<Longrightarrow> rp \<le> rq \<Longrightarrow>
     get_default PLAN_INTERVALS p {} \<subseteq> get_default PLAN_INTERVALS q {}
     \<and> (check_interval (Some \<lparr>lifespan_plan = p\<rparr>) interval = Inr ()
          \<longrightarrow> check_interval (Some \<lparr>lifespan_plan = q\<rparr>) interval = Inr ())"
  using PLAN_INTERVALS_mono [of p rp q rq]
  by (auto simp: check_interval_passes)

theorem plan_intervals_monotone_witness:
  "map_of PLAN_HIERARCHY ''hobbyist'' = Some 0
   \<and> map_of PLAN_HIERARCHY ''startup'' = Some 1
   \<and> (0::int) \<le> 1
   \<and> get_default PLAN_INTERVALS ''hobbyist'' {} \<subseteq> get_default PLAN_INTERVALS ''startup'' {}
   \<and> check_interval (Some \<lparr>lifespan_plan = ''hobbyist''\<rparr>) ''h4'' = Inr ()
   \<and> check_interval (Some \<lparr>lifespan_plan = ''startup''\<rparr>) ''h4'' = Inr ()"
  using plan_intervals_monotone [of "''hobbyist''" 0 "''startup''" 1 "''h4''"]
  by (simp add: PLAN_HIERARCHY_def check_interval_passes intervals_of_plan)

subsection \<open>Required parameters\<close>

lemma check_params_fails:
  "isl (check_params action kwargs)
     = (\<exists>p \<in> set (get_default ACTION_PARAMS action []). \<not> truthy (get_default kwargs p PNone))"
  by (auto simp: check_params_def Let_def filter_empty_conv)

lemma check_params_passes:
  "(check_params action kwargs = Inr ())
     = (\<forall>p \<in> set (get_default ACTION_PARAMS action []). truthy (get_default kwargs p PNone))"
  by (auto simp: check_params_def Let_def filter_empty_conv)

text \<open>
  C7. \<open>check_params\<close> fails exactly when some name in the action's registered list
  of required parameters has a missing or falsy value among the provided parameters,
  and passes exactly when every required name has a truthy one. An absent parameter, a
  parameter given as \<open>None\<close>, the empty string and the number zero all count as
  missing. An action with no registered list always passes. The action pair requires
  exchange and pair, and fails when only exchange is given.
\<close>

theorem check_params_fails_iff:
  "isl (check_params action kwargs)
     = (\<exists>p \<in> set (get_default ACTION_PARAMS action []).
          \<not> truthy (get_default kwargs p PNone))
   \<and> (check_params action kwargs = Inr ())
     = (\<forall>p \<in> set (get_default ACTION_PARAMS action []).
          truthy (get_default kwargs p PNone))
   \<and> (map_of kwargs p = None \<longrightarrow> \<not> truthy (get_default kwargs p PNone))
   \<and> (map_of kwargs p = Some (PStr []) \<longrightarrow> \<not> truthy (get_default kwargs p PNone))
   \<and> (map_of kwargs p = Some (PInt 0) \<longrightarrow> \<not> truthy (get_default kwargs p PNone))
   \<and> (map_of kwargs p = Some PNone \<longrightarrow> \<not> truthy (get_default kwargs p PNone))
   \<and> (map_of ACTION_PARAMS action = None \<longrightarrow> check_params action kwargs = Inr ())
   \<and> get_default ACTION_PARAMS ''pair'' [] = [''exchange'', ''pair'']
   \<and> isl (check_params ''pair'' [(''exchange'', PStr ''Binance'')])"
proof (intro conjI impI)
  show "isl (check_params action kwargs)
     = (\<exists>p \<in> set (get_default ACTION_PARAMS action []).
          \<not> truthy (get_default kwargs p PNone))"
    by (rule check_params_fails)
  show "(check_params action kwargs = Inr ())
     = (\<forall>p \<in> set (get_default ACTION_PARAMS action []).
          truthy (get_default kwargs p PNone))"
    by (rule check_params_passes)
  show "map_of ACTION_PARAMS action = None \<Longrightarrow> check_params action kwargs = Inr ()"
    by (simp add: check_params_passes get_default_def)
  show p: "get_default ACTION_PARAMS ''pair'' [] = [''exchange'', ''pair'']"
    by (simp add: ACTION_PARAMS_def get_default_def)
  show "isl (check_params ''pair'' [(''exchange'', PStr ''Binance'')])"
    by (simp add: check_params_fails p) (simp add: get_default_def)
qed (simp_all add: get_default_def)

theorem check_params_fails_iff_witness:
  "get_default ACTION_PARAMS ''aggregated'' [] = [''symbol'']
   \<and> map_of [(''symbol'', PInt 0)] ''symbol'' = Some (PInt 0)
   \<and> isl (check_params ''aggregated'' [(''symbol'', PInt 0)])
   \<and> map_of [(''symbol'', PStr [])] ''symbol'' = Some (PStr [])
   \<and> isl (check_params ''aggregated'' [(''symbol'', PStr [])])
   \<and> map_of [(''symbol'', PNone)] ''symbol'' = Some PNone
   \<and> isl (check_params ''aggregated'' [(''symbol'', PNone)])
   \<and> map_of [] ''symbol'' = (None :: pyval option)
   \<and> isl (check_params ''aggregated'' [])
   \<and> check_params ''aggregated'' [(''symbol'', PStr ''BTC'')] = Inr ()
   \<and> map_of ACTION_PARAMS ''coins'' = None
   \<and> check_params ''coins'' [] = Inr ()"
  using check_params_fails_iff [of "''aggregated''" "[(''symbol'', PInt 0)]" "''symbol''"]
        check_params_fails_iff [of "''aggregated''" "[(''symbol'', PStr [])]" "''symbol''"]
        check_params_fails_iff [of "''aggregated''" "[(''symbol'', PNone)]" "''symbol''"]
        check_params_fails_iff [of "''aggregated''" "[]" "''symbol''"]
        check_params_fails_iff [of "''aggregated''" "[(''symbol'', PStr ''BTC'')]" "''symbol''"]
        check_params_fails_iff [of "''coins''" "[]" "''symbol''"]
  by (simp add: ACTION_PARAMS_def get_default_def)

section \<open>Dropping the entries that are None\<close>

text \<open>
  In a dictionary, the filter that keeps the entries whose value is not \<open>None\<close>
  removes the keys bound to \<open>None\<close> and leaves every other binding as it was.
\<close>

lemma filter_not_None_lookup:
  "distinct (map fst d) \<Longrightarrow>
     map_of (filter (\<lambda>(k, v). v \<noteq> PNone) d) k
       = (if map_of d k = Some PNone then None else map_of d k)"
proof (induction d)
  case Nil
  then show ?case by simp
next
  case (Cons kv d)
  obtain k' v' where kv: "kv = (k', v')" by (cases kv)
  from Cons.prems kv have nin: "k' \<notin> fst ` set d" and dd: "distinct (map fst d)"
    by auto
  from nin have none: "map_of d k' = None"
    by (simp add: map_of_eq_None_iff)
  from nin have fnone: "map_of (filter (\<lambda>(k, v). v \<noteq> PNone) d) k' = None"
    by (auto simp: map_of_eq_None_iff)
  show ?case
    using Cons.IH [OF dd] none fnone by (simp add: kv)
qed

section \<open>The success envelope\<close>

text \<open>
  C8. For every action name, payload and bag of metadata fields, \<open>ok\<close> returns the
  dictionary with success true, the given action, the given payload as data, and as
  metadata the given fields without those whose value is \<open>None\<close>: the metadata has
  no entry with value \<open>None\<close>, its entries are the entries of the bag with another
  value, and every key looks up what it did in the bag unless that was \<open>None\<close>.
\<close>

theorem ok_envelope:
  "ok action data meta =
     PDict [(''success'', PBool True), (''action'', PStr action), (''data'', data),
            (''metadata'', PDict (filter (\<lambda>(k, v). v \<noteq> PNone) meta))]
   \<and> (\<forall>kv \<in> set (filter (\<lambda>(k, v). v \<noteq> PNone) meta). snd kv \<noteq> PNone)
   \<and> set (filter (\<lambda>(k, v). v \<noteq> PNone) meta) = {kv \<in> set meta. snd kv \<noteq> PNone}
   \<and> (distinct (map fst meta) \<longrightarrow>
        map_of (filter (\<lambda>(k, v). v \<noteq> PNone) meta) k
          = (if map_of meta k = Some PNone then None else map_of meta k))"
proof (intro conjI impI)
  show "ok action data meta =
     PDict [(''success'', PBool True), (''action'', PStr action), (''data'', data),
            (''metadata'', PDict (filter (\<lambda>(k, v). v \<noteq> PNone) meta))]"
    by (simp add: ok_def)
  show "\<forall>kv \<in> set (filter (\<lambda>(k, v). v \<noteq> PNone) meta). snd kv \<noteq> PNone"
    by auto
  show "set (filter (\<lambda>(k, v). v \<noteq> PNone) meta) = {kv \<in> set meta. snd kv \<noteq> PNone}"
    by auto
  assume "distinct (map fst meta)"
  then show "map_of (filter (\<lambda>(k, v). v \<noteq> PNone) meta) k
          = (if map_of meta k = Some PNone then None else map_of meta k)"
    by (rule filter_not_None_lookup)
qed

theorem ok_envelope_witness:
  "ok ''coins'' (PList [PStr ''BTC'']) [(''total'', PInt 1), (''exchange'', PNone)]
     = PDict [(''success'', PBool True), (''action'', PStr ''coins''),
              (''data'', PList [PStr ''BTC'']), (''metadata'', PDict [(''total'', PInt 1)])]
   \<and> distinct (map fst [(''total'', PInt 1), (''exchange'', PNone)])
   \<and> map_of (filter (\<lambda>(k, v). v \<noteq> PNone) [(''total'', PInt 1), (''exchange'', PNone)])
        ''exchange'' = None"
  using ok_envelope [of "''coins''" "PList [PStr ''BTC'']"
          "[(''total'', PInt 1), (''exchange'', PNone)]" "''exchange''"]
  by simp

section \<open>The retry decorator\<close>

text \<open>The four ways an attempt of \<open>retry_call\<close> ends.\<close>

lemma retry_call_result:
  "fn n = (Inr v, tr) \<Longrightarrow> retry_call m w r rr fn n = (Inr v, tr)"
  by (simp add: retry_call.simps)

lemma retry_call_not_retried:
  "fn n = (Inl e, tr) \<Longrightarrow> \<not> r e \<Longrightarrow> retry_call m w r rr fn n = (Inl e, tr)"
  by (simp add: retry_call.simps)

lemma retry_call_exhausted:
  "fn n = (Inl e, tr) \<Longrightarrow> r e \<Longrightarrow> m \<le> n \<Longrightarrow>
     retry_call m w r rr fn n = (Inl (if rr then e else RetryError e), tr)"
  by (simp add: retry_call.simps stop_after_attempt_def)

lemma retry_call_again:
  "fn n = (Inl e, tr) \<Longrightarrow> r e \<Longrightarrow> n < m \<Longrightarrow>
     retry_call m w r rr fn n
       = (fst (retry_call m w r rr fn (Suc n)), tr @ Sleep (w n) # snd (retry_call m w r rr fn (Suc n)))"
  by (subst retry_call.simps) (simp add: stop_after_attempt_def split: prod.splits)

text \<open>Every GET of the decorated call is a GET of one of the runs of the body.\<close>

lemma retry_call_gets:
  "HttpGet c \<in> set (snd (retry_call m w r rr fn n)) \<Longrightarrow> \<exists>k. HttpGet c \<in> set (snd (fn k))"
proof (induction m w r rr fn n rule: retry_call.induct)
  case (1 m w r rr fn n)
  obtain res tr where f: "fn n = (res, tr)" by (cases "fn n")
  show ?case
  proof (cases res)
    case (Inr v)
    with f "1.prems" have "HttpGet c \<in> set (snd (fn n))"
      by (simp add: retry_call_result)
    then show ?thesis by blast
  next
    case (Inl e)
    show ?thesis
    proof (cases "r e \<and> n < m")
      case False
      with f Inl "1.prems" have "HttpGet c \<in> set (snd (fn n))"
        by (cases "r e") (auto simp: retry_call_not_retried retry_call_exhausted not_less)
      then show ?thesis by blast
    next
      case True
      then have re: "r e" and nm: "n < m" by simp_all
      from f Inl have fe: "fn n = (Inl e, tr)" by simp
      from "1.prems" retry_call_again [where fn = fn and n = n and r = r and m = m and w = w and rr = rr, OF fe re nm]
      have "HttpGet c \<in> set tr \<or> HttpGet c \<in> set (snd (retry_call m w r rr fn (n + 1)))"
        by auto
      then show ?thesis
      proof
        assume "HttpGet c \<in> set tr"
        with f have "HttpGet c \<in> set (snd (fn n))" by simp
        then show ?thesis by blast
      next
        assume h: "HttpGet c \<in> set (snd (retry_call m w r rr fn (n + 1)))"
        have "\<not> stop_after_attempt m n"
          using nm by (simp add: stop_after_attempt_def)
        from "1.IH" [OF fe [symmetric] refl _ this h] re fe show ?thesis
          by auto
      qed
    qed
  qed
qed

section \<open>The transport client\<close>

subsection \<open>One attempt, and the calls that end with the first\<close>

lemma request_attempt_trace:
  "snd (request_attempt py_str self endpoint params n) = [HttpGet (get_call self endpoint params)]"
  by (simp add: request_attempt_def Let_def)

lemma request_attempt_eq:
  "request_attempt py_str self endpoint params n
     = (fst (request_attempt py_str self endpoint params n),
        [HttpGet (get_call self endpoint params)])"
  by (simp add: request_attempt_def Let_def)

lemma request_returns:
  assumes "fst (request_attempt py_str self endpoint params 1) = Inr v"
  shows "request py_str self endpoint params = (Inr v, [HttpGet (get_call self endpoint params)])"
proof -
  have "request_attempt py_str self endpoint params 1
          = (Inr v, [HttpGet (get_call self endpoint params)])"
    using request_attempt_eq [of py_str self endpoint params 1] assms by simp
  then show ?thesis
    unfolding request_def
    by (rule retry_call_result [where fn = "request_attempt py_str self endpoint params"])
qed

lemma request_not_retried:
  assumes "fst (request_attempt py_str self endpoint params 1) = Inl e" "\<not> is_retryable e"
  shows "request py_str self endpoint params = (Inl e, [HttpGet (get_call self endpoint params)])"
proof -
  have "request_attempt py_str self endpoint params 1
          = (Inl e, [HttpGet (get_call self endpoint params)])"
    using request_attempt_eq [of py_str self endpoint params 1] assms(1) by simp
  then show ?thesis
    unfolding request_def
    using assms(2)
    by (rule retry_call_not_retried [where fn = "request_attempt py_str self endpoint params"])
qed

lemma request_attempt_response:
  "http self n (get_call self endpoint params) = Inr r \<Longrightarrow>
     fst (request_attempt py_str self endpoint params n) = handle_response py_str r"
  by (simp add: request_attempt_def Let_def)

lemma request_attempt_exception:
  "http self n (get_call self endpoint params) = Inl e \<Longrightarrow>
     fst (request_attempt py_str self endpoint params n) = Inl e"
  by (simp add: request_attempt_def Let_def)

lemma attempts_single: "attempts [HttpGet c] = 1"
  by (simp add: attempts_def)

text \<open>The client of the tests.\<close>

lemma mock_client_call:
  "get_call (mock_client outcome) ''/api/test'' None
     = \<lparr>call_url = ''https://open-api-v4.coinglass.com/api/test'', call_params = None,
        call_headers = [(''CG-API-KEY'', ''test-api-key'')], call_timeout = 30\<rparr>"
  by (simp add: get_call_def filtered_params_def mock_client_def BASE_URL_def TIMEOUT_def)

lemma mock_client_http: "http (mock_client outcome) n call = outcome"
  by (simp add: mock_client_def)

subsection \<open>Status codes 429, 403 and 401\<close>

text \<open>
  C2, as the code has it. For a response with status code 429, 403 or 401,
  \<open>request\<close> makes exactly one GET, never sleeps and never retries, and fails with
  \<open>RateLimitError\<close> for 429, with \<open>PlanLimitError\<close> for 403, and for 401 with
  \<open>APIError\<close> and the message that the API key is invalid.
\<close>

theorem request_typed_errors_not_retried:
  "http self 1 (get_call self endpoint params) = Inr r \<Longrightarrow>
     (status_code r = 429 \<longrightarrow>
        request py_str self endpoint params
          = (Inl (RateLimitError ''Rate limit exceeded. Please wait before making more requests.''),
             [HttpGet (get_call self endpoint params)]))
     \<and> (status_code r = 403 \<longrightarrow>
        request py_str self endpoint params
          = (Inl (PlanLimitError
                ''This feature requires a higher plan. Check your CoinGlass subscription.''),
             [HttpGet (get_call self endpoint params)]))
     \<and> (status_code r = 401 \<longrightarrow>
        request py_str self endpoint params
          = (Inl (APIError ''Invalid API key. Please check your COINGLASS_API_KEY.''),
             [HttpGet (get_call self endpoint params)]))
     \<and> (status_code r \<in> {429, 403, 401} \<longrightarrow>
          attempts (snd (request py_str self endpoint params)) = 1)"
proof -
  assume h: "http self 1 (get_call self endpoint params) = Inr r"
  note a = request_attempt_response [OF h, of py_str]
  have 1: "status_code r = 429 \<Longrightarrow>
        request py_str self endpoint params
          = (Inl (RateLimitError ''Rate limit exceeded. Please wait before making more requests.''),
             [HttpGet (get_call self endpoint params)])"
    by (rule request_not_retried) (simp_all del: One_nat_def add: a handle_response_def is_retryable_def)
  have 2: "status_code r = 403 \<Longrightarrow>
        request py_str self endpoint params
          = (Inl (PlanLimitError
                ''This feature requires a higher plan. Check your CoinGlass subscription.''),
             [HttpGet (get_call self endpoint params)])"
    by (rule request_not_retried) (simp_all del: One_nat_def add: a handle_response_def is_retryable_def)
  have 3: "status_code r = 401 \<Longrightarrow>
        request py_str self endpoint params
          = (Inl (APIError ''Invalid API key. Please check your COINGLASS_API_KEY.''),
             [HttpGet (get_call self endpoint params)])"
    by (rule request_not_retried) (simp_all del: One_nat_def add: a handle_response_def is_retryable_def)
  have 4: "status_code r \<in> {429, 403, 401} \<Longrightarrow>
          attempts (snd (request py_str self endpoint params)) = 1"
    using 1 2 3 by (auto simp: attempts_single)
  show ?thesis
    using 1 2 3 4 by blast
qed

theorem request_typed_errors_not_retried_witness:
  "http (mock_client (Inr \<lparr>status_code = 429, json_body = None\<rparr>)) 1
       (get_call (mock_client (Inr \<lparr>status_code = 429, json_body = None\<rparr>)) ''/api/test'' None)
     = Inr \<lparr>status_code = 429, json_body = None\<rparr>
   \<and> request unused_str (mock_client (Inr \<lparr>status_code = 429, json_body = None\<rparr>))
         ''/api/test'' None
     = (Inl (RateLimitError ''Rate limit exceeded. Please wait before making more requests.''),
        [HttpGet \<lparr>call_url = ''https://open-api-v4.coinglass.com/api/test'', call_params = None,
           call_headers = [(''CG-API-KEY'', ''test-api-key'')], call_timeout = 30\<rparr>])
   \<and> request unused_str (mock_client (Inr \<lparr>status_code = 403, json_body = None\<rparr>))
         ''/api/test'' None
     = (Inl (PlanLimitError
          ''This feature requires a higher plan. Check your CoinGlass subscription.''),
        [HttpGet \<lparr>call_url = ''https://open-api-v4.coinglass.com/api/test'', call_params = None,
           call_headers = [(''CG-API-KEY'', ''test-api-key'')], call_timeout = 30\<rparr>])
   \<and> request unused_str (mock_client (Inr \<lparr>status_code = 401, json_body = None\<rparr>))
         ''/api/test'' None
     = (Inl (APIError ''Invalid API key. Please check your COINGLASS_API_KEY.''),
        [HttpGet \<lparr>call_url = ''https://open-api-v4.coinglass.com/api/test'', call_params = None,
           call_headers = [(''CG-API-KEY'', ''test-api-key'')], call_timeout = 30\<rparr>])
   \<and> attempts (snd (request unused_str
         (mock_client (Inr \<lparr>status_code = 401, json_body = None\<rparr>)) ''/api/test'' None)) = 1"
  using request_typed_errors_not_retried
          [of "mock_client (Inr \<lparr>status_code = 429, json_body = None\<rparr>)" "''/api/test''" None
              "\<lparr>status_code = 429, json_body = None\<rparr>" unused_str]
        request_typed_errors_not_retried
          [of "mock_client (Inr \<lparr>status_code = 403, json_body = None\<rparr>)" "''/api/test''" None
              "\<lparr>status_code = 403, json_body = None\<rparr>" unused_str]
        request_typed_errors_not_retried
          [of "mock_client (Inr \<lparr>status_code = 401, json_body = None\<rparr>)" "''/api/test''" None
              "\<lparr>status_code = 401, json_body = None\<rparr>" unused_str]
  by (simp add: mock_client_http mock_client_call attempts_def)

text \<open>
  C2 asks for an authentication failure of a kind distinct from the generic API
  failure. The code has no such class: status 401 raises \<open>APIError\<close>, the class
  that an envelope with a code other than "0" raises, and only the message differs.
\<close>

theorem request_401_raises_generic_APIError:
  "fst (request unused_str (mock_client (Inr \<lparr>status_code = 401, json_body = None\<rparr>))
          ''/api/test'' None)
     = Inl (APIError ''Invalid API key. Please check your COINGLASS_API_KEY.'')
   \<and> fst (request unused_str (mock_client (Inr (mock_response PNone ''1'' ''Invalid parameter'')))
          ''/api/test'' None)
     = Inl (APIError ''API error: Invalid parameter'')
   \<and> exception_class (APIError ''Invalid API key. Please check your COINGLASS_API_KEY.'')
     = exception_class (APIError ''API error: Invalid parameter'')"
proof (intro conjI)
  let ?c401 = "mock_client (Inr \<lparr>status_code = 401, json_body = None\<rparr>)"
  let ?c200 = "mock_client (Inr (mock_response PNone ''1'' ''Invalid parameter''))"
  have "fst (request_attempt unused_str ?c401 ''/api/test'' None 1)
          = Inl (APIError ''Invalid API key. Please check your COINGLASS_API_KEY.'')"
    by (simp del: One_nat_def
        add: request_attempt_response [OF mock_client_http] handle_response_def)
  then show "fst (request unused_str ?c401 ''/api/test'' None)
     = Inl (APIError ''Invalid API key. Please check your COINGLASS_API_KEY.'')"
    by (simp del: One_nat_def add: request_not_retried is_retryable_def)
  have "fst (request_attempt unused_str ?c200 ''/api/test'' None 1)
          = Inl (APIError ''API error: Invalid parameter'')"
    by (simp del: One_nat_def
        add: request_attempt_response [OF mock_client_http] handle_response_def
          mock_response_def raise_for_status_def get_default_def format_value_def)
  then show "fst (request unused_str ?c200 ''/api/test'' None)
     = Inl (APIError ''API error: Invalid parameter'')"
    by (simp del: One_nat_def add: request_not_retried is_retryable_def)
  show "exception_class (APIError ''Invalid API key. Please check your COINGLASS_API_KEY.'')
     = exception_class (APIError ''API error: Invalid parameter'')"
    by simp
qed

subsection \<open>Retryable failures\<close>

text \<open>A response with a 5xx status makes the body raise a retryable
  \<open>HTTPStatusError\<close>; the retryable exceptions are that one, a timeout and a
  connection error.\<close>

lemma request_attempt_5xx:
  "http self n (get_call self endpoint params) = Inr r \<Longrightarrow>
   500 \<le> status_code r \<Longrightarrow> status_code r < 600 \<Longrightarrow>
     fst (request_attempt py_str self endpoint params n) = Inl (HTTPStatusError (status_code r))
     \<and> is_retryable (HTTPStatusError (status_code r))"
  by (simp add: request_attempt_response handle_response_def raise_for_status_def
      is_retryable_def)

lemma is_retryable_cases:
  "is_retryable e \<Longrightarrow>
     e = TimeoutException \<or> e = ConnectError
     \<or> (\<exists>code. e = HTTPStatusError code \<and> 500 \<le> code \<and> code < 600)"
  by (cases e) (simp_all add: is_retryable_def)

lemma wait_exponential_values:
  "wait_exponential 1 1 10 1 = 1 \<and> wait_exponential 1 1 10 2 = 2"
  by (simp add: wait_exponential_def)

text \<open>
  C1. When each of three attempts fails with a retryable exception, \<open>request\<close>
  makes exactly three GET calls, sleeping 1 and then 2 between them. Against the
  claim, what then reaches the caller is not the last failure itself: it is the retry
  library's \<open>RetryError\<close> around the last failure, an exception of another class
  than the timeout, connection error or \<open>HTTPStatusError\<close> that it wraps.
\<close>

theorem request_exhausted_raises_RetryError:
  assumes "fst (request_attempt py_str self endpoint params 1) = Inl e1" and "is_retryable e1"
    and "fst (request_attempt py_str self endpoint params 2) = Inl e2" and "is_retryable e2"
    and "fst (request_attempt py_str self endpoint params 3) = Inl e3" and "is_retryable e3"
  shows "request py_str self endpoint params
           = (Inl (RetryError e3),
              [HttpGet (get_call self endpoint params), Sleep 1,
               HttpGet (get_call self endpoint params), Sleep 2,
               HttpGet (get_call self endpoint params)])
         \<and> attempts (snd (request py_str self endpoint params)) = 3
         \<and> exception_class (RetryError e3) \<noteq> exception_class e3"
proof -
  let ?fn = "request_attempt py_str self endpoint params"
  let ?c = "get_call self endpoint params"
  let ?w = "wait_exponential 1 1 10"
  have f1: "?fn 1 = (Inl e1, [HttpGet ?c])"
    using request_attempt_eq [of py_str self endpoint params 1] assms(1) by simp
  have f2: "?fn 2 = (Inl e2, [HttpGet ?c])"
    using request_attempt_eq [of py_str self endpoint params 2] assms(3) by simp
  have f3: "?fn 3 = (Inl e3, [HttpGet ?c])"
    using request_attempt_eq [of py_str self endpoint params 3] assms(5) by simp
  have r3: "retry_call 3 ?w is_retryable False ?fn 3 = (Inl (RetryError e3), [HttpGet ?c])"
    using retry_call_exhausted [where fn = ?fn and n = 3 and r = is_retryable and m = 3
        and w = ?w and rr = False, OF f3 assms(6)]
    by simp
  have r2: "retry_call 3 ?w is_retryable False ?fn 2
              = (Inl (RetryError e3), [HttpGet ?c, Sleep 2, HttpGet ?c])"
    using retry_call_again [where fn = ?fn and n = 2 and r = is_retryable and m = 3
        and w = ?w and rr = False, OF f2 assms(4)] r3 wait_exponential_values
    by (simp add: numeral_3_eq_3 numeral_2_eq_2)
  have r1: "retry_call 3 ?w is_retryable False ?fn 1
              = (Inl (RetryError e3), [HttpGet ?c, Sleep 1, HttpGet ?c, Sleep 2, HttpGet ?c])"
    using retry_call_again [where fn = ?fn and n = 1 and r = is_retryable and m = 3
        and w = ?w and rr = False, OF f1 assms(2)] r2 wait_exponential_values
    by (simp add: numeral_2_eq_2)
  have req: "request py_str self endpoint params
           = (Inl (RetryError e3), [HttpGet ?c, Sleep 1, HttpGet ?c, Sleep 2, HttpGet ?c])"
    unfolding request_def by (rule r1)
  have cls: "exception_class (RetryError e3) \<noteq> exception_class e3"
    using is_retryable_cases [OF assms(6)] by auto
  show ?thesis
    using req cls by (simp add: attempts_def)
qed

theorem request_exhausted_raises_RetryError_witness:
  "fst (request_attempt unused_str (mock_client (Inr \<lparr>status_code = 500, json_body = None\<rparr>))
          ''/api/test'' None 1) = Inl (HTTPStatusError 500)
   \<and> is_retryable (HTTPStatusError 500)
   \<and> request unused_str (mock_client (Inr \<lparr>status_code = 500, json_body = None\<rparr>))
         ''/api/test'' None
     = (Inl (RetryError (HTTPStatusError 500)),
        [HttpGet \<lparr>call_url = ''https://open-api-v4.coinglass.com/api/test'', call_params = None,
           call_headers = [(''CG-API-KEY'', ''test-api-key'')], call_timeout = 30\<rparr>,
         Sleep 1,
         HttpGet \<lparr>call_url = ''https://open-api-v4.coinglass.com/api/test'', call_params = None,
           call_headers = [(''CG-API-KEY'', ''test-api-key'')], call_timeout = 30\<rparr>,
         Sleep 2,
         HttpGet \<lparr>call_url = ''https://open-api-v4.coinglass.com/api/test'', call_params = None,
           call_headers = [(''CG-API-KEY'', ''test-api-key'')], call_timeout = 30\<rparr>])
   \<and> exception_class (RetryError (HTTPStatusError 500)) = ''RetryError''
   \<and> exception_class (HTTPStatusError 500) = ''HTTPStatusError''"
proof -
  let ?cl = "mock_client (Inr \<lparr>status_code = 500, json_body = None\<rparr>)"
  have a: "fst (request_attempt unused_str ?cl ''/api/test'' None n) = Inl (HTTPStatusError 500)
           \<and> is_retryable (HTTPStatusError 500)" for n
    using request_attempt_5xx [where self = ?cl and n = n and endpoint = "''/api/test''"
        and params = None and r = "\<lparr>status_code = 500, json_body = None\<rparr>"
        and py_str = unused_str]
    by (simp add: mock_client_http)
  show ?thesis
    using request_exhausted_raises_RetryError [of unused_str ?cl "''/api/test''" None
        "HTTPStatusError 500" "HTTPStatusError 500" "HTTPStatusError 500"] a
    by (simp del: One_nat_def add: mock_client_call)
qed

text \<open>Whatever the connection answers, \<open>request\<close> makes at least one and at most
  three GET calls, and each of them is the same call.\<close>

lemma attempts_append: "attempts (xs @ Sleep d # ys) = attempts xs + attempts ys"
  by (simp add: attempts_def)

lemma retry_call_attempts:
  assumes one: "\<And>k. attempts (snd (fn k)) = 1"
  shows "1 \<le> attempts (snd (retry_call m w r rr fn n))
         \<and> attempts (snd (retry_call m w r rr fn n)) \<le> Suc (m - n)"
proof (induction "m - n" arbitrary: n)
  case 0
  obtain res tr where f: "fn n = (res, tr)" by (cases "fn n")
  from one [of n] f have tr: "attempts tr = 1" by simp
  from 0 have mn: "m \<le> n" by simp
  have "snd (retry_call m w r rr fn n) = tr"
  proof (cases res)
    case (Inr v)
    with f show ?thesis by (simp add: retry_call_result)
  next
    case (Inl e)
    with f mn show ?thesis
      by (cases "r e") (simp_all add: retry_call_not_retried retry_call_exhausted)
  qed
  with tr show ?case by simp
next
  case (Suc d)
  obtain res tr where f: "fn n = (res, tr)" by (cases "fn n")
  from one [of n] f have tr: "attempts tr = 1" by simp
  from Suc.hyps(2) have nm: "n < m" and d: "d = m - Suc n" by simp_all
  show ?case
  proof (cases res)
    case (Inr v)
    with f tr show ?thesis by (simp add: retry_call_result)
  next
    case (Inl e)
    show ?thesis
    proof (cases "r e")
      case False
      with f Inl tr show ?thesis by (simp add: retry_call_not_retried)
    next
      case True
      from f Inl have fe: "fn n = (Inl e, tr)" by simp
      from Suc.hyps(1) [OF d] tr nm
      show ?thesis
        by (simp add: retry_call_again [where fn = fn and n = n and r = r and m = m and w = w and rr = rr,
              OF fe True nm] attempts_append)
          arith
    qed
  qed
qed

lemma request_attempts_bounds:
  "1 \<le> attempts (snd (request py_str self endpoint params))
   \<and> attempts (snd (request py_str self endpoint params)) \<le> 3"
proof -
  have "attempts (snd (request_attempt py_str self endpoint params k)) = 1" for k
    by (simp add: request_attempt_trace attempts_def)
  from retry_call_attempts [where fn = "request_attempt py_str self endpoint params"
      and m = 3 and n = 1 and w = "wait_exponential 1 1 10" and r = is_retryable
      and rr = False, OF this]
  show ?thesis
    unfolding request_def by simp
qed

lemma request_all_gets:
  "HttpGet c \<in> set (snd (request py_str self endpoint params)) \<Longrightarrow>
     c = get_call self endpoint params"
  unfolding request_def
  by (drule retry_call_gets) (simp add: request_attempt_trace)

subsection \<open>Parameter filtering\<close>

lemma filtered_params_no_None: "(k, v) \<in> set (filtered_params params) \<Longrightarrow> v \<noteq> PNone"
  by (auto simp: filtered_params_def)

lemma filtered_params_lookup:
  "distinct (map fst d) \<Longrightarrow>
     map_of (filtered_params (Some d)) k
       = (if map_of d k = Some PNone then None else map_of d k)"
  by (simp add: filtered_params_def filter_not_None_lookup)

lemma request_depends_on_call:
  assumes "get_call self endpoint params = get_call self endpoint params'"
  shows "request py_str self endpoint params = request py_str self endpoint params'"
proof -
  have "request_attempt py_str self endpoint params = request_attempt py_str self endpoint params'"
    by (rule ext) (simp add: request_attempt_def assms)
  then show ?thesis by (simp add: request_def)
qed

lemma get_call_empty:
  "filtered_params params = [] \<Longrightarrow> get_call self endpoint params = get_call self endpoint None"
  by (simp add: get_call_def Let_def filtered_params_def)

text \<open>
  C3. Every GET that \<open>request\<close> makes carries the filtered parameter bag: no entry
  of it has the value \<open>None\<close>, a key that the given bag binds to \<open>None\<close> is
  not among its keys, and every other key keeps its value. When the filtered bag is
  empty the call is made with no parameters at all, and the whole call of
  \<open>request\<close> is the one made with the parameters omitted.
\<close>

theorem request_null_params_not_sent:
  "(\<forall>c. HttpGet c \<in> set (snd (request py_str self endpoint params))
        \<longrightarrow> c = get_call self endpoint params)
   \<and> call_params (get_call self endpoint params)
       = (if filtered_params params = [] then None else Some (filtered_params params))
   \<and> (\<forall>kv \<in> set (filtered_params params). snd kv \<noteq> PNone)
   \<and> (params = Some d \<longrightarrow> distinct (map fst d) \<longrightarrow> map_of d k = Some PNone
        \<longrightarrow> k \<notin> fst ` set (filtered_params params))
   \<and> (params = Some d \<longrightarrow> distinct (map fst d) \<longrightarrow> map_of d k \<noteq> Some PNone
        \<longrightarrow> map_of (filtered_params params) k = map_of d k)
   \<and> (filtered_params params = []
        \<longrightarrow> call_params (get_call self endpoint params) = None
          \<and> get_call self endpoint params = get_call self endpoint None
          \<and> request py_str self endpoint params = request py_str self endpoint None)"
proof (intro conjI allI impI)
  fix c
  assume "HttpGet c \<in> set (snd (request py_str self endpoint params))"
  then show "c = get_call self endpoint params" by (rule request_all_gets)
next
  show "call_params (get_call self endpoint params)
       = (if filtered_params params = [] then None else Some (filtered_params params))"
    by (simp add: get_call_def Let_def)
next
  show "\<forall>kv \<in> set (filtered_params params). snd kv \<noteq> PNone"
    using filtered_params_no_None by auto
next
  assume "params = Some d" "distinct (map fst d)" "map_of d k = Some PNone"
  then have "map_of (filtered_params params) k = None"
    by (simp add: filtered_params_lookup)
  then show "k \<notin> fst ` set (filtered_params params)"
    by (simp add: map_of_eq_None_iff)
next
  assume "params = Some d" "distinct (map fst d)" "map_of d k \<noteq> Some PNone"
  then show "map_of (filtered_params params) k = map_of d k"
    by (simp add: filtered_params_lookup)
next
  assume e: "filtered_params params = []"
  then show "call_params (get_call self endpoint params) = None"
    by (simp add: get_call_def Let_def)
  from e show g: "get_call self endpoint params = get_call self endpoint None"
    by (rule get_call_empty)
  then show "request py_str self endpoint params = request py_str self endpoint None"
    by (rule request_depends_on_call)
qed

lemma mock_client_get_call:
  "get_call (mock_client outcome) endpoint params
     = \<lparr>call_url = ''https://open-api-v4.coinglass.com'' @ endpoint,
        call_params = (if filtered_params params = [] then None else Some (filtered_params params)),
        call_headers = [(''CG-API-KEY'', ''test-api-key'')], call_timeout = 30\<rparr>"
  by (simp add: get_call_def Let_def mock_client_def BASE_URL_def TIMEOUT_def)

lemma handle_response_success:
  "handle_response py_str (mock_response data ''0'' msg) = Inr data"
  by (simp add: handle_response_def mock_response_def raise_for_status_def get_default_def)

lemma mock_request_success:
  "request py_str (mock_client (Inr (mock_response data ''0'' msg))) endpoint params
     = (Inr data,
        [HttpGet (get_call (mock_client (Inr (mock_response data ''0'' msg))) endpoint params)])"
  by (rule request_returns)
     (simp del: One_nat_def
        add: request_attempt_response [OF mock_client_http] handle_response_success)

theorem request_null_params_not_sent_witness:
  "HttpGet \<lparr>call_url = ''https://open-api-v4.coinglass.com/api/futures/coins-markets'',
            call_params = Some [(''symbol'', PStr ''BTC'')],
            call_headers = [(''CG-API-KEY'', ''test-api-key'')], call_timeout = 30\<rparr>
     \<in> set (snd (request unused_str (mock_client (Inr (mock_response (PList []) ''0'' ''success'')))
           ''/api/futures/coins-markets'' (Some [(''symbol'', PStr ''BTC''), (''exchange'', PNone)])))
   \<and> get_call (mock_client (Inr (mock_response (PList []) ''0'' ''success'')))
         ''/api/futures/coins-markets'' (Some [(''symbol'', PStr ''BTC''), (''exchange'', PNone)])
       = \<lparr>call_url = ''https://open-api-v4.coinglass.com/api/futures/coins-markets'',
            call_params = Some [(''symbol'', PStr ''BTC'')],
            call_headers = [(''CG-API-KEY'', ''test-api-key'')], call_timeout = 30\<rparr>
   \<and> distinct (map fst [(''symbol'', PStr ''BTC''), (''exchange'', PNone)])
   \<and> map_of [(''symbol'', PStr ''BTC''), (''exchange'', PNone)] ''exchange'' = Some PNone
   \<and> ''exchange'' \<notin> fst ` set (filtered_params
         (Some [(''symbol'', PStr ''BTC''), (''exchange'', PNone)]))
   \<and> map_of [(''symbol'', PStr ''BTC''), (''exchange'', PNone)] ''symbol'' \<noteq> Some PNone
   \<and> map_of (filtered_params (Some [(''symbol'', PStr ''BTC''), (''exchange'', PNone)])) ''symbol''
       = Some (PStr ''BTC'')
   \<and> (''symbol'', PStr ''BTC'')
       \<in> set (filtered_params (Some [(''symbol'', PStr ''BTC''), (''exchange'', PNone)]))
   \<and> filtered_params (Some [(''exchange'', PNone)]) = []
   \<and> call_params (get_call (mock_client (Inr (mock_response (PList []) ''0'' ''success'')))
         ''/api/test'' (Some [(''exchange'', PNone)])) = None
   \<and> request unused_str (mock_client (Inr (mock_response (PList []) ''0'' ''success'')))
         ''/api/test'' (Some [(''exchange'', PNone)])
       = request unused_str (mock_client (Inr (mock_response (PList []) ''0'' ''success'')))
           ''/api/test'' None"
  using request_null_params_not_sent
          [of unused_str "mock_client (Inr (mock_response (PList []) ''0'' ''success''))"
              "''/api/futures/coins-markets''"
              "Some [(''symbol'', PStr ''BTC''), (''exchange'', PNone)]"
              "[(''symbol'', PStr ''BTC''), (''exchange'', PNone)]" "''exchange''"]
        request_null_params_not_sent
          [of unused_str "mock_client (Inr (mock_response (PList []) ''0'' ''success''))"
              "''/api/futures/coins-markets''"
              "Some [(''symbol'', PStr ''BTC''), (''exchange'', PNone)]"
              "[(''symbol'', PStr ''BTC''), (''exchange'', PNone)]" "''symbol''"]
        request_null_params_not_sent
          [of unused_str "mock_client (Inr (mock_response (PList []) ''0'' ''success''))"
              "''/api/test''" "Some [(''exchange'', PNone)]" "[(''exchange'', PNone)]"
              "''exchange''"]
  by (simp add: mock_request_success mock_client_get_call filtered_params_def)

subsection \<open>The response envelope\<close>

text \<open>
  C4. For a response with a 2xx status whose body is an envelope: when its code is
  the string "0", \<open>request\<close> returns the data field as it was received, whatever
  value that is, after one GET; when its code is anything else, or absent,
  \<open>request\<close> returns no value and fails, after one GET, with an \<open>APIError\<close>
  whose message carries the upstream msg, or the default "Unknown error" when the
  envelope has no msg.
\<close>

theorem request_unwraps_envelope:
  assumes "http self 1 (get_call self endpoint params) = Inr r"
    and "200 \<le> status_code r" and "status_code r < 300"
    and "json_body r = Some (PDict env)"
  shows "(map_of env ''code'' = Some (PStr ''0'') \<longrightarrow>
            request py_str self endpoint params
              = (Inr (get_default env ''data'' PNone), [HttpGet (get_call self endpoint params)])
            \<and> (map_of env ''data'' = Some x \<longrightarrow>
                 fst (request py_str self endpoint params) = Inr x))
       \<and> (map_of env ''code'' \<noteq> Some (PStr ''0'') \<longrightarrow>
            request py_str self endpoint params
              = (Inl (APIError (''API error: ''
                   @ format_value py_str (get_default env ''msg'' (PStr ''Unknown error'')))),
                 [HttpGet (get_call self endpoint params)])
            \<and> (map_of env ''msg'' = Some (PStr m) \<longrightarrow>
                 fst (request py_str self endpoint params) = Inl (APIError (''API error: '' @ m)))
            \<and> (map_of env ''msg'' = None \<longrightarrow>
                 fst (request py_str self endpoint params)
                   = Inl (APIError ''API error: Unknown error'')))"
proof -
  have ok: "status_code r \<noteq> 429 \<and> status_code r \<noteq> 403 \<and> status_code r \<noteq> 401
            \<and> raise_for_status r = Inr ()"
    using assms(2,3) by (simp add: raise_for_status_def)
  note a = request_attempt_response [OF assms(1), of py_str]
  have good: "request py_str self endpoint params
              = (Inr (get_default env ''data'' PNone), [HttpGet (get_call self endpoint params)])"
    if "map_of env ''code'' = Some (PStr ''0'')"
    by (rule request_returns)
       (simp del: One_nat_def add: a handle_response_def ok assms(4) that)
  have bad: "request py_str self endpoint params
              = (Inl (APIError (''API error: ''
                   @ format_value py_str (get_default env ''msg'' (PStr ''Unknown error'')))),
                 [HttpGet (get_call self endpoint params)])"
    if "map_of env ''code'' \<noteq> Some (PStr ''0'')"
    by (rule request_not_retried)
       (simp_all del: One_nat_def add: a handle_response_def ok assms(4) that is_retryable_def)
  show ?thesis
    using good bad by (auto simp: get_default_def format_value_def)
qed

theorem request_unwraps_envelope_witness:
  "request unused_str
       (mock_client (Inr (mock_response (PList [PDict [(''symbol'', PStr ''BTC'')]]) ''0'' ''success'')))
       ''/api/test'' None
     = (Inr (PList [PDict [(''symbol'', PStr ''BTC'')]]),
        [HttpGet \<lparr>call_url = ''https://open-api-v4.coinglass.com/api/test'', call_params = None,
           call_headers = [(''CG-API-KEY'', ''test-api-key'')], call_timeout = 30\<rparr>])
   \<and> fst (request unused_str (mock_client (Inr (mock_response PNone ''0'' ''success'')))
         ''/api/test'' None) = Inr PNone
   \<and> fst (request unused_str (mock_client (Inr (mock_response (PList []) ''0'' ''success'')))
         ''/api/test'' None) = Inr (PList [])
   \<and> request unused_str (mock_client (Inr (mock_response PNone ''1'' ''Invalid parameter'')))
         ''/api/test'' None
     = (Inl (APIError ''API error: Invalid parameter''),
        [HttpGet \<lparr>call_url = ''https://open-api-v4.coinglass.com/api/test'', call_params = None,
           call_headers = [(''CG-API-KEY'', ''test-api-key'')], call_timeout = 30\<rparr>])
   \<and> fst (request unused_str
         (mock_client (Inr \<lparr>status_code = 200, json_body = Some (PDict [(''code'', PStr ''1'')])\<rparr>))
         ''/api/test'' None) = Inl (APIError ''API error: Unknown error'')"
  using request_unwraps_envelope
          [where self = "mock_client (Inr (mock_response (PList [PDict [(''symbol'', PStr ''BTC'')]]) ''0'' ''success''))"
             and endpoint = "''/api/test''" and params = None
             and r = "mock_response (PList [PDict [(''symbol'', PStr ''BTC'')]]) ''0'' ''success''"
             and env = "[(''code'', PStr ''0''), (''msg'', PStr ''success''),
                (''data'', PList [PDict [(''symbol'', PStr ''BTC'')]])]"
             and x = "PList [PDict [(''symbol'', PStr ''BTC'')]]" and py_str = unused_str
             and m = "''success''"]
        request_unwraps_envelope
          [where self = "mock_client (Inr (mock_response PNone ''0'' ''success''))"
             and endpoint = "''/api/test''" and params = None
             and r = "mock_response PNone ''0'' ''success''"
             and env = "[(''code'', PStr ''0''), (''msg'', PStr ''success''), (''data'', PNone)]"
             and x = PNone and py_str = unused_str and m = "''success''"]
        request_unwraps_envelope
          [where self = "mock_client (Inr (mock_response (PList []) ''0'' ''success''))"
             and endpoint = "''/api/test''" and params = None
             and r = "mock_response (PList []) ''0'' ''success''"
             and env = "[(''code'', PStr ''0''), (''msg'', PStr ''success''), (''data'', PList [])]"
             and x = "PList []" and py_str = unused_str and m = "''success''"]
        request_unwraps_envelope
          [where self = "mock_client (Inr (mock_response PNone ''1'' ''Invalid parameter''))"
             and endpoint = "''/api/test''" and params = None
             and r = "mock_response PNone ''1'' ''Invalid parameter''"
             and env = "[(''code'', PStr ''1''), (''msg'', PStr ''Invalid parameter''),
                (''data'', PNone)]"
             and x = PNone and py_str = unused_str and m = "''Invalid parameter''"]
        request_unwraps_envelope
          [where self = "mock_client (Inr \<lparr>status_code = 200,
                json_body = Some (PDict [(''code'', PStr ''1'')])\<rparr>)"
             and endpoint = "''/api/test''" and params = None
             and r = "\<lparr>status_code = 200, json_body = Some (PDict [(''code'', PStr ''1'')])\<rparr>"
             and env = "[(''code'', PStr ''1'')]"
             and x = PNone and py_str = unused_str and m = "''Invalid parameter''"]
  by (simp add: mock_client_http mock_client_call mock_response_def get_default_def
      format_value_def)

end
